theory Spec2Isabelle
  imports Main "HOL-Library.Word" "HOL-Library.Sublist"
begin

section \<open>The gateway of proxy.go: data model\<close>

text \<open>
  The theory embeds \<^verbatim>\<open>src/proxy.go\<close>: the request translation of \<^verbatim>\<open>proxyHandler\<close>,
  \<^verbatim>\<open>convertToolChoice\<close>, \<^verbatim>\<open>convertMessages\<close>, the response translation of
  \<^verbatim>\<open>handleRegularResponse\<close> and the read loop of \<^verbatim>\<open>handleStreamingResponse\<close>.

  A Go \<^verbatim>\<open>string\<close> is a byte string, here \<^typ>\<open>string\<close>. A \<^verbatim>\<open>float64\<close> is kept as its
  IEEE-754 bit pattern: the program never computes with one, it copies it and the JSON
  encoder compares it with zero. A Go \<^verbatim>\<open>int\<close> that is only copied is an \<^typ>\<open>int\<close>.
\<close>

type_synonym float64 = "64 word"

text \<open>
  A JSON value. As the dynamic value of a Go \<^verbatim>\<open>interface{}\<close> filled by
  \<^verbatim>\<open>json.Unmarshal\<close>: \<open>JNull\<close> is \<^verbatim>\<open>nil\<close>, \<open>JNumber\<close> a \<^verbatim>\<open>float64\<close>, \<open>JObject\<close>
  a \<^verbatim>\<open>map[string]interface{}\<close> (looked up with \<^const>\<open>map_of\<close>). As the output of
  \<^verbatim>\<open>json.Marshal\<close> of a struct: \<open>JObject\<close> lists the emitted fields in the order of
  the struct's declaration, \<open>JInt\<close> is an integer field.
\<close>

datatype json =
    JNull
  | JBool bool
  | JNumber float64
  | JInt int
  | JString string
  | JArray "json list"
  | JObject "(string \<times> json) list"

definition deepseekEndpoint :: string where
  "deepseekEndpoint = ''https://api.deepseek.com''"

definition openRouterEndpoint :: string where
  "openRouterEndpoint = ''https://openrouter.ai/api/v1''"

definition deepseekChatModel :: string where
  "deepseekChatModel = ''deepseek-chat''"

definition gpt4oModel :: string where
  "gpt4oModel = ''gpt-4o''"

record Config =
  endpoint :: string
  model :: string
  apiKey :: string

text \<open>The anonymous struct \<^verbatim>\<open>Function\<close> inside \<^verbatim>\<open>ToolCall\<close>.\<close>

record ToolCallFunction =
  tcf_Name :: string
  tcf_Arguments :: string

record ToolCall =
  tc_ID :: string
  tc_Type :: string
  tc_Function :: ToolCallFunction

record Message =
  msg_Role :: string
  msg_Content :: string
  msg_ToolCalls :: "ToolCall list"
  msg_ToolCallID :: string
  msg_Name :: string

record Function =
  fn_Name :: string
  fn_Description :: string
  fn_Parameters :: json

record Tool =
  tool_Type :: string
  tool_Function :: Function

record ChatRequest =
  cr_Model :: string
  cr_Messages :: "Message list"
  cr_Stream :: bool
  cr_Functions :: "Function list"
  cr_Tools :: "Tool list"
  cr_ToolChoice :: json
  cr_Temperature :: "float64 option"
  cr_MaxTokens :: "int option"

record DeepSeekRequest =
  ds_Model :: string
  ds_Messages :: "Message list"
  ds_Stream :: bool
  ds_Temperature :: float64
  ds_MaxTokens :: int
  ds_Tools :: "Tool list"
  ds_ToolChoice :: string

section \<open>Schema translation, request direction\<close>

text \<open>
  \<^verbatim>\<open>convertToolChoice\<close> (lines 215-236). The type assertion \<^verbatim>\<open>choice.(string)\<close> succeeds
  on \<open>JString\<close> only, \<^verbatim>\<open>choice.(map[string]interface{})\<close> on \<open>JObject\<close> only; the
  comparison \<^verbatim>\<open>choiceMap["type"] == "function"\<close> holds when the key is there and its
  value is that string.
\<close>

fun convertToolChoice :: "json \<Rightarrow> string" where
  "convertToolChoice JNull = ''''"
| "convertToolChoice (JString str) =
     (if str = ''auto'' \<or> str = ''none'' then str else '''')"
| "convertToolChoice (JObject choiceMap) =
     (if map_of choiceMap ''type'' = Some (JString ''function'') then ''auto'' else '''')"
| "convertToolChoice _ = ''''"

text \<open>
  \<^verbatim>\<open>convertMessages\<close> (lines 238-277). The inner loop rebuilds every tool call of an
  assistant message with its type set to \<^verbatim>\<open>"function"\<close>; the outer loop fills
  \<^verbatim>\<open>converted[i]\<close> from \<^verbatim>\<open>messages[i]\<close>. Logging is left out.
\<close>

definition convertToolCall :: "ToolCall \<Rightarrow> ToolCall" where
  "convertToolCall tc =
     \<lparr>tc_ID = tc_ID tc, tc_Type = ''function'', tc_Function = tc_Function tc\<rparr>"

definition convertMessage :: "Message \<Rightarrow> Message" where
  "convertMessage msg =
     (let converted = msg;
          converted =
            (if msg_Role msg = ''assistant'' \<and> length (msg_ToolCalls msg) > 0
             then converted\<lparr>msg_ToolCalls := map convertToolCall (msg_ToolCalls msg)\<rparr>
             else converted);
          converted =
            (if msg_Role msg = ''function''
             then converted\<lparr>msg_Role := ''tool''\<rparr>
             else converted)
      in converted)"

fun convertMessages :: "Message list \<Rightarrow> Message list" where
  "convertMessages [] = []"
| "convertMessages (msg # messages) = convertMessage msg # convertMessages messages"

text \<open>
  The request translation of \<^verbatim>\<open>proxyHandler\<close> (lines 420-458): the struct literal, the
  two optional scalars copied when their pointer is not \<^verbatim>\<open>nil\<close>, then the tools or the
  legacy functions with the converted tool choice. The fields the literal leaves out
  hold Go's zero values.
\<close>

definition functionsToTools :: "Function list \<Rightarrow> Tool list" where
  "functionsToTools fns = map (\<lambda>fn. \<lparr>tool_Type = ''function'', tool_Function = fn\<rparr>) fns"

definition buildDeepSeekRequest :: "Config \<Rightarrow> ChatRequest \<Rightarrow> DeepSeekRequest" where
  "buildDeepSeekRequest activeConfig chatReq =
     (let deepseekReq =
            \<lparr>ds_Model = model activeConfig,
             ds_Messages = convertMessages (cr_Messages chatReq),
             ds_Stream = cr_Stream chatReq,
             ds_Temperature = 0, ds_MaxTokens = 0, ds_Tools = [], ds_ToolChoice = ''''\<rparr>;
          deepseekReq =
            (case cr_Temperature chatReq of
               Some t \<Rightarrow> deepseekReq\<lparr>ds_Temperature := t\<rparr>
             | None \<Rightarrow> deepseekReq);
          deepseekReq =
            (case cr_MaxTokens chatReq of
               Some n \<Rightarrow> deepseekReq\<lparr>ds_MaxTokens := n\<rparr>
             | None \<Rightarrow> deepseekReq);
          tc = convertToolChoice (cr_ToolChoice chatReq)
      in if length (cr_Tools chatReq) > 0 then
           (let deepseekReq = deepseekReq\<lparr>ds_Tools := cr_Tools chatReq\<rparr>
            in if tc = '''' then deepseekReq else deepseekReq\<lparr>ds_ToolChoice := tc\<rparr>)
         else if length (cr_Functions chatReq) > 0 then
           (let deepseekReq = deepseekReq\<lparr>ds_Tools := functionsToTools (cr_Functions chatReq)\<rparr>
            in if tc = '''' then deepseekReq else deepseekReq\<lparr>ds_ToolChoice := tc\<rparr>)
         else deepseekReq)"

section \<open>JSON encoding of the structs\<close>

text \<open>
  \<^verbatim>\<open>json.Marshal\<close> of a struct emits its fields in declaration order under their tags.
  A field tagged \<^verbatim>\<open>omitempty\<close> is left out when its value is empty: a slice or string of
  length 0, an integer equal to 0, a float that compares equal to 0 (both signed
  zeros).
\<close>

definition omitempty :: "bool \<Rightarrow> string \<Rightarrow> json \<Rightarrow> (string \<times> json) list" where
  "omitempty isEmpty key v = (if isEmpty then [] else [(key, v)])"

definition float64_isZero :: "float64 \<Rightarrow> bool" where
  "float64_isZero f = (f = 0 \<or> f = 0x8000000000000000)"

text \<open>The member of a JSON object under a key; \<open>None\<close> when the key is not emitted.\<close>

fun json_field :: "json \<Rightarrow> string \<Rightarrow> json option" where
  "json_field (JObject members) key = map_of members key"
| "json_field _ key = None"

definition marshal_ToolCall :: "ToolCall \<Rightarrow> json" where
  "marshal_ToolCall tc =
     JObject [(''id'', JString (tc_ID tc)),
              (''type'', JString (tc_Type tc)),
              (''function'', JObject [(''name'', JString (tcf_Name (tc_Function tc))),
                                      (''arguments'', JString (tcf_Arguments (tc_Function tc)))])]"

definition marshal_Message :: "Message \<Rightarrow> json" where
  "marshal_Message m =
     JObject ([(''role'', JString (msg_Role m)), (''content'', JString (msg_Content m))]
       @ omitempty (msg_ToolCalls m = []) ''tool_calls''
           (JArray (map marshal_ToolCall (msg_ToolCalls m)))
       @ omitempty (msg_ToolCallID m = '''') ''tool_call_id'' (JString (msg_ToolCallID m))
       @ omitempty (msg_Name m = '''') ''name'' (JString (msg_Name m)))"

definition marshal_Function :: "Function \<Rightarrow> json" where
  "marshal_Function f =
     JObject [(''name'', JString (fn_Name f)),
              (''description'', JString (fn_Description f)),
              (''parameters'', fn_Parameters f)]"

definition marshal_Tool :: "Tool \<Rightarrow> json" where
  "marshal_Tool t =
     JObject [(''type'', JString (tool_Type t)),
              (''function'', marshal_Function (tool_Function t))]"

definition marshal_DeepSeekRequest :: "DeepSeekRequest \<Rightarrow> json" where
  "marshal_DeepSeekRequest r =
     JObject ([(''model'', JString (ds_Model r)),
               (''messages'', JArray (map marshal_Message (ds_Messages r))),
               (''stream'', JBool (ds_Stream r))]
       @ omitempty (float64_isZero (ds_Temperature r)) ''temperature''
           (JNumber (ds_Temperature r))
       @ omitempty (ds_MaxTokens r = 0) ''max_tokens'' (JInt (ds_MaxTokens r))
       @ omitempty (ds_Tools r = []) ''tools'' (JArray (map marshal_Tool (ds_Tools r)))
       @ omitempty (ds_ToolChoice r = '''') ''tool_choice'' (JString (ds_ToolChoice r)))"

section \<open>Schema translation, response direction\<close>

text \<open>
  The struct that \<^verbatim>\<open>handleRegularResponse\<close> declares twice, once for the upstream
  reply (\<^verbatim>\<open>deepseekResp\<close>) and once for the client-facing reply (\<^verbatim>\<open>openAIResp\<close>).
\<close>

record Choice =
  ch_Index :: int
  ch_Message :: Message
  ch_FinishReason :: string

record Usage =
  us_PromptTokens :: int
  us_CompletionTokens :: int
  us_TotalTokens :: int

record ChatResponse =
  rp_ID :: string
  rp_Object :: string
  rp_Created :: int
  rp_Model :: string
  rp_Choices :: "Choice list"
  rp_Usage :: Usage

text \<open>
  The inner loop of lines 711-718. Its accumulator is
  \<^verbatim>\<open>openAIResp.Choices[i].Message.ToolCalls\<close>, the list being iterated is
  \<^verbatim>\<open>choice.Message.ToolCalls\<close>. A tool call with an empty function name is skipped
  (\<^verbatim>\<open>continue\<close>), any other is appended to the accumulator. \<^verbatim>\<open>append\<close> writes past the
  length of the slice it is given, so the elements the loop iterates over are never
  overwritten and a list models the slice exactly.
\<close>

fun appendToolCalls :: "ToolCall list \<Rightarrow> ToolCall list \<Rightarrow> ToolCall list" where
  "appendToolCalls acc [] = acc"
| "appendToolCalls acc (tc # tcs) =
     (if tcf_Name (tc_Function tc) = '''' then appendToolCalls acc tcs
      else appendToolCalls (acc @ [tc]) tcs)"

text \<open>
  One iteration of the loop of lines 698-720. The struct literal copies
  \<^verbatim>\<open>choice.Message\<close> whole, its \<^verbatim>\<open>ToolCalls\<close> included, into \<^verbatim>\<open>openAIResp.Choices[i]\<close>;
  the inner loop then starts from that copy.
\<close>

definition translateChoice :: "Choice \<Rightarrow> Choice" where
  "translateChoice choice =
     (let out = \<lparr>ch_Index = ch_Index choice, ch_Message = ch_Message choice,
                 ch_FinishReason = ch_FinishReason choice\<rparr>
      in if length (msg_ToolCalls (ch_Message choice)) > 0
         then out\<lparr>ch_Message := (ch_Message out)
                \<lparr>msg_ToolCalls := appendToolCalls (msg_ToolCalls (ch_Message out))
                                    (msg_ToolCalls (ch_Message choice))\<rparr>\<rparr>
         else out)"

fun translateChoices :: "Choice list \<Rightarrow> Choice list" where
  "translateChoices [] = []"
| "translateChoices (choice # choices) = translateChoice choice # translateChoices choices"

definition translateResponse :: "ChatResponse \<Rightarrow> ChatResponse" where
  "translateResponse deepseekResp =
     \<lparr>rp_ID = rp_ID deepseekResp,
      rp_Object = ''chat.completion'',
      rp_Created = rp_Created deepseekResp,
      rp_Model = gpt4oModel,
      rp_Choices = translateChoices (rp_Choices deepseekResp),
      rp_Usage = rp_Usage deepseekResp\<rparr>"

definition marshal_Choice :: "Choice \<Rightarrow> json" where
  "marshal_Choice c =
     JObject [(''index'', JInt (ch_Index c)),
              (''message'', marshal_Message (ch_Message c)),
              (''finish_reason'', JString (ch_FinishReason c))]"

definition marshal_Usage :: "Usage \<Rightarrow> json" where
  "marshal_Usage u =
     JObject [(''prompt_tokens'', JInt (us_PromptTokens u)),
              (''completion_tokens'', JInt (us_CompletionTokens u)),
              (''total_tokens'', JInt (us_TotalTokens u))]"

definition marshal_ChatResponse :: "ChatResponse \<Rightarrow> json" where
  "marshal_ChatResponse r =
     JObject [(''id'', JString (rp_ID r)),
              (''object'', JString (rp_Object r)),
              (''created'', JInt (rp_Created r)),
              (''model'', JString (rp_Model r)),
              (''choices'', JArray (map marshal_Choice (rp_Choices r))),
              (''usage'', marshal_Usage (rp_Usage r))]"

section \<open>The request handler\<close>

text \<open>
  An \<^verbatim>\<open>http.Header\<close> is a map from canonical header names to value lists. The keys Go's
  server and client hand out are canonical already, so \<^verbatim>\<open>Get\<close>, \<^verbatim>\<open>Set\<close> and \<^verbatim>\<open>Add\<close> are
  modelled on canonical keys.
\<close>

type_synonym Header = "string \<Rightarrow> string list option"

definition Header_Get :: "Header \<Rightarrow> string \<Rightarrow> string" where
  "Header_Get h key = (case h key of Some (v # vs) \<Rightarrow> v | _ \<Rightarrow> '''')"

definition Header_Set :: "Header \<Rightarrow> string \<Rightarrow> string \<Rightarrow> Header" where
  "Header_Set h key v = h(key \<mapsto> [v])"

text \<open>
  A body as the handler meets it: \<^verbatim>\<open>io.ReadAll\<close> fails (\<open>ReadFailed\<close>), or it yields
  bytes that \<^verbatim>\<open>json.Unmarshal\<close> rejects (\<open>Malformed\<close>), or bytes that it decodes into
  the given struct (\<open>Parsed\<close>). The JSON parser itself is library code and is not
  modelled.
\<close>

datatype 'a payload = ReadFailed | Malformed string | Parsed string 'a

fun payload_bytes :: "'a payload \<Rightarrow> string option" where
  "payload_bytes ReadFailed = None"
| "payload_bytes (Malformed bytes) = Some bytes"
| "payload_bytes (Parsed bytes x) = Some bytes"

record Request =
  rq_Method :: string
  rq_Path :: string
  rq_RawQuery :: string
  rq_Header :: Header
  rq_Body :: "ChatRequest payload"

text \<open>The request sent upstream; \<open>pr_Body\<close> is the JSON that \<^verbatim>\<open>json.Marshal\<close> serialises.\<close>

record ProxyRequest =
  pr_Method :: string
  pr_URL :: string
  pr_Header :: Header
  pr_Body :: json

record UpstreamReply =
  up_StatusCode :: int
  up_Header :: Header
  up_Body :: "ChatResponse payload"

text \<open>
  What is written to the client: raw bytes, the output of \<^verbatim>\<open>json.Marshal\<close> of a value, or
  the output of a \<^verbatim>\<open>json.Encoder\<close> (the same with a newline after it).
\<close>

datatype body = Bytes string | Marshalled json | EncodedLine json

record Response =
  rs_StatusCode :: int
  rs_Header :: Header
  rs_Body :: body

text \<open>
  The handler answers with a complete response, or it writes a status and headers and
  hands the connection to the relay loop of \<^verbatim>\<open>handleStreamingResponse\<close>.
\<close>

datatype Outcome = Respond Response | Relay int Header

text \<open>
  What the handler takes from its surroundings: the clock of \<^verbatim>\<open>time.Now().Unix()\<close>,
  whether \<^verbatim>\<open>http.NewRequest\<close> accepts a method and URL, and the reply of
  \<^verbatim>\<open>httpClient.Do\<close> (\<open>None\<close> for a transport error).
\<close>

record Env =
  env_now :: int
  env_NewRequest_ok :: "string \<Rightarrow> string \<Rightarrow> bool"
  env_Do :: "ProxyRequest \<Rightarrow> UpstreamReply option"

definition enableCors :: "Header \<Rightarrow> Header" where
  "enableCors w =
     (let w = Header_Set w ''Access-Control-Allow-Origin'' ''*'';
          w = Header_Set w ''Access-Control-Allow-Methods'' ''POST, GET, OPTIONS'';
          w = Header_Set w ''Access-Control-Allow-Headers''
                ''Origin, Content-Type, Accept, Authorization'';
          w = Header_Set w ''Access-Control-Expose-Headers'' ''Content-Length'';
          w = Header_Set w ''Access-Control-Allow-Credentials'' ''true''
      in w)"

text \<open>
  \<^verbatim>\<open>http.Error\<close>: a plain-text content type, the status code, the message and a newline.
\<close>

definition http_Error :: "Header \<Rightarrow> string \<Rightarrow> int \<Rightarrow> Response" where
  "http_Error w err code =
     \<lparr>rs_StatusCode = code,
      rs_Header = Header_Set (Header_Set w ''Content-Type'' ''text/plain; charset=utf-8'')
                    ''X-Content-Type-Options'' ''nosniff'',
      rs_Body = Bytes (err @ [CHR 0x0A])\<rparr>"

definition handleModelsRequest :: "Header \<Rightarrow> int \<Rightarrow> Response" where
  "handleModelsRequest w now =
     \<lparr>rs_StatusCode = 200,
      rs_Header = Header_Set w ''Content-Type'' ''application/json'',
      rs_Body = EncodedLine (JObject
        [(''object'', JString ''list''),
         (''data'', JArray
            [JObject [(''id'', JString ''gpt-4o''), (''object'', JString ''model''),
                      (''created'', JInt now), (''owned_by'', JString ''openai'')],
             JObject [(''id'', JString ''deepseek-chat''), (''object'', JString ''model''),
                      (''created'', JInt now), (''owned_by'', JString ''deepseek'')]])])\<rparr>"

text \<open>
  \<^verbatim>\<open>copyHeaders\<close> (lines 737-752): every value of every source header outside
  \<^verbatim>\<open>skipHeaders\<close> is added to the destination.
\<close>

definition skipHeaders :: "string list" where
  "skipHeaders = [''Content-Length'', ''Content-Encoding'', ''Transfer-Encoding'', ''Connection'']"

definition copyHeaders :: "Header \<Rightarrow> Header \<Rightarrow> Header" where
  "copyHeaders dst src =
     (\<lambda>k. if k \<in> set skipHeaders then dst k
          else (case src k of
                  None \<Rightarrow> dst k
                | Some vv \<Rightarrow>
                    (if vv = [] then dst k
                     else Some ((case dst k of None \<Rightarrow> [] | Some d \<Rightarrow> d) @ vv))))"

text \<open>
  The proxy request of lines 460-505. \<^verbatim>\<open>json.Marshal\<close> cannot fail on a
  \<^verbatim>\<open>DeepSeekRequest\<close> whose values were decoded from JSON, so its error branch is not
  modelled. \<^verbatim>\<open>Header.Set("HTTP-Referer", _)\<close> stores under the canonical key.
\<close>

definition buildProxyRequest :: "Config \<Rightarrow> Request \<Rightarrow> ChatRequest \<Rightarrow> ProxyRequest" where
  "buildProxyRequest activeConfig r chatReq =
     (let targetURL = endpoint activeConfig @ rq_Path r;
          targetURL = (if rq_RawQuery r = '''' then targetURL
                       else targetURL @ ''?'' @ rq_RawQuery r);
          hdr = copyHeaders Map.empty (rq_Header r);
          hdr = Header_Set hdr ''Authorization'' (''Bearer '' @ apiKey activeConfig);
          hdr = Header_Set hdr ''Content-Type'' ''application/json'';
          hdr = (if endpoint activeConfig = openRouterEndpoint
                 then Header_Set
                        (Header_Set hdr ''Http-Referer''
                           ''https://github.com/danilofalcao/cursor-deepseek'')
                        ''X-Title'' ''Cursor DeepSeek''
                 else hdr);
          hdr = (if cr_Stream chatReq then Header_Set hdr ''Accept'' ''text/event-stream''
                 else hdr);
          acceptLanguage = Header_Get (rq_Header r) ''Accept-Language'';
          hdr = (if acceptLanguage = '''' then hdr
                 else Header_Set hdr ''Accept-Language'' acceptLanguage)
      in \<lparr>pr_Method = rq_Method r, pr_URL = targetURL, pr_Header = hdr,
          pr_Body = marshal_DeepSeekRequest (buildDeepSeekRequest activeConfig chatReq)\<rparr>)"

text \<open>
  \<^verbatim>\<open>handleRegularResponse\<close> (lines 629-735). A body that cannot be read gives
  \<^verbatim>\<open>http.Error\<close> with status 500, one that does not parse a bare status 500; otherwise
  the translated reply is written under the upstream status.
\<close>

definition handleRegularResponse :: "Header \<Rightarrow> UpstreamReply \<Rightarrow> Response" where
  "handleRegularResponse w resp =
     (case up_Body resp of
        ReadFailed \<Rightarrow> http_Error w ''Error reading response from upstream'' 500
      | Malformed bytes \<Rightarrow> \<lparr>rs_StatusCode = 500, rs_Header = w, rs_Body = Bytes ''''\<rparr>
      | Parsed bytes deepseekResp \<Rightarrow>
          \<lparr>rs_StatusCode = up_StatusCode resp,
           rs_Header = Header_Set w ''Content-Type'' ''application/json'',
           rs_Body = Marshalled (marshal_ChatResponse (translateResponse deepseekResp))\<rparr>)"

text \<open>
  The end of \<^verbatim>\<open>proxyHandler\<close> (lines 518-548), once the upstream reply is there. For a
  status of 400 or more the loop \<^verbatim>\<open>for k, v := range resp.Header { w.Header()[k] = v }\<close>
  overrides the client headers with every upstream header; then the content type is
  set, the upstream status written and the upstream bytes written.
\<close>

definition streamHeaders :: "Header \<Rightarrow> Header" where
  "streamHeaders w =
     Header_Set (Header_Set (Header_Set w ''Content-Type'' ''text/event-stream'')
       ''Cache-Control'' ''no-cache'') ''Connection'' ''keep-alive''"

definition dispatchReply :: "Header \<Rightarrow> ChatRequest \<Rightarrow> UpstreamReply \<Rightarrow> Outcome" where
  "dispatchReply w chatReq resp =
     (if up_StatusCode resp \<ge> 400 then
        (case payload_bytes (up_Body resp) of
           None \<Rightarrow> Respond (http_Error w ''Error reading response'' 500)
         | Some respBody \<Rightarrow>
             Respond \<lparr>rs_StatusCode = up_StatusCode resp,
                      rs_Header = Header_Set (w ++ up_Header resp)
                                    ''Content-Type'' ''application/json'',
                      rs_Body = Bytes respBody\<rparr>)
      else if cr_Stream chatReq then Relay (up_StatusCode resp) (streamHeaders w)
      else Respond (handleRegularResponse w resp))"

text \<open>
  \<^verbatim>\<open>proxyHandler\<close> (lines 328-549). The result is what the client gets and the list of
  requests handed to \<^verbatim>\<open>httpClient.Do\<close>. The second \<^verbatim>\<open>json.Unmarshal\<close> of the same bytes
  (line 401) decodes as the first did, so its error branch is not modelled.
\<close>

definition proxyHandler :: "Config \<Rightarrow> Env \<Rightarrow> Request \<Rightarrow> Outcome \<times> ProxyRequest list" where
  "proxyHandler activeConfig env r =
     (if rq_Method r = ''OPTIONS'' then
        (Respond \<lparr>rs_StatusCode = 200, rs_Header = enableCors Map.empty,
                  rs_Body = Bytes ''''\<rparr>, [])
      else
        let w = enableCors Map.empty;
            authHeader = Header_Get (rq_Header r) ''Authorization''
        in if \<not> prefix ''Bearer '' authHeader then
             (Respond (http_Error w ''Missing or invalid Authorization header'' 401), [])
           else if drop (length ''Bearer '') authHeader \<noteq> apiKey activeConfig then
             (Respond (http_Error w ''Invalid API key'' 401), [])
           else if rq_Path r = ''/v1/models'' \<and> rq_Method r = ''GET'' then
             (Respond (handleModelsRequest w (env_now env)), [])
           else
             (case rq_Body r of
                ReadFailed \<Rightarrow> (Respond (http_Error w ''Error reading request'' 400), [])
              | Malformed bytes \<Rightarrow> (Respond (http_Error w ''Invalid JSON'' 400), [])
              | Parsed bytes chatReq \<Rightarrow>
                  if rq_Path r = ''/v1/models'' then
                    (Respond (handleModelsRequest w (env_now env)), [])
                  else if \<not> prefix ''/v1/'' (rq_Path r) then
                    (Respond (http_Error w ''Not found'' 404), [])
                  else if cr_Model chatReq \<noteq> gpt4oModel then
                    (Respond (http_Error w
                       (''Model '' @ cr_Model chatReq @ '' not supported. Use ''
                          @ gpt4oModel @ '' instead.'') 400), [])
                  else
                    let chatReq = chatReq\<lparr>cr_Model := model activeConfig\<rparr>;
                        proxyReq = buildProxyRequest activeConfig r chatReq
                    in if \<not> env_NewRequest_ok env (pr_Method proxyReq) (pr_URL proxyReq) then
                         (Respond (http_Error w ''Error creating proxy request'' 500), [])
                       else
                         (case env_Do env proxyReq of
                            None \<Rightarrow>
                              (Respond (http_Error w ''Error forwarding request'' 502),
                               [proxyReq])
                          | Some resp \<Rightarrow> (dispatchReply w chatReq resp, [proxyReq]))))"

section \<open>The streaming relay\<close>

text \<open>
  The upstream body of a streaming reply: the bytes not yet consumed and how the body
  ends once they are consumed, with a clean end of stream or with a read failure.
\<close>

datatype ReadErr = EOF | ReadFailure

record Upstream =
  us_pending :: string
  us_ending :: ReadErr

text \<open>
  \<^verbatim>\<open>reader.ReadBytes('\n')\<close>: the bytes up to and including the first newline; when the
  body ends before a newline, the bytes read so far together with the error. \<open>cutLine\<close>
  scans for the newline: the line with its newline and the bytes after it, or \<open>None\<close>
  when there is no newline.
\<close>

fun cutLine :: "string \<Rightarrow> (string \<times> string) option" where
  "cutLine [] = None"
| "cutLine (c # cs) =
     (if c = CHR 0x0A then Some ([c], cs)
      else (case cutLine cs of
              None \<Rightarrow> None
            | Some (line, rest) \<Rightarrow> Some (c # line, rest)))"

definition ReadBytes :: "Upstream \<Rightarrow> string \<times> ReadErr option \<times> Upstream" where
  "ReadBytes up =
     (case cutLine (us_pending up) of
        None \<Rightarrow> (us_pending up, Some (us_ending up), up\<lparr>us_pending := []\<rparr>)
      | Some (line, rest) \<Rightarrow> (line, None, up\<lparr>us_pending := rest\<rparr>))"

text \<open>
  \<^verbatim>\<open>len(bytes.TrimSpace(line)) == 0\<close>: the line is a sequence of white-space characters
  and nothing else. \<^verbatim>\<open>TrimSpace\<close> strips the six ASCII white-space bytes and, decoding
  UTF-8, the characters of Unicode's \<^verbatim>\<open>White_Space\<close> property: U+0085 and U+00A0 (two
  bytes each), U+1680, U+2000 to U+200A, U+2028, U+2029, U+202F, U+205F and U+3000
  (three bytes each). Any other byte, a malformed encoding included, is payload.
\<close>

definition asciiSpace :: "char list" where
  "asciiSpace = [CHR 0x09, CHR 0x0A, CHR 0x0B, CHR 0x0C, CHR 0x0D, CHR 0x20]"

definition twoByteSpaces :: "string list" where
  "twoByteSpaces = [[CHR 0xC2, CHR 0x85], [CHR 0xC2, CHR 0xA0]]"

definition threeByteSpaces :: "string list" where
  "threeByteSpaces =
     [[CHR 0xE1, CHR 0x9A, CHR 0x80],
      [CHR 0xE2, CHR 0x80, CHR 0x80], [CHR 0xE2, CHR 0x80, CHR 0x81],
      [CHR 0xE2, CHR 0x80, CHR 0x82], [CHR 0xE2, CHR 0x80, CHR 0x83],
      [CHR 0xE2, CHR 0x80, CHR 0x84], [CHR 0xE2, CHR 0x80, CHR 0x85],
      [CHR 0xE2, CHR 0x80, CHR 0x86], [CHR 0xE2, CHR 0x80, CHR 0x87],
      [CHR 0xE2, CHR 0x80, CHR 0x88], [CHR 0xE2, CHR 0x80, CHR 0x89],
      [CHR 0xE2, CHR 0x80, CHR 0x8A],
      [CHR 0xE2, CHR 0x80, CHR 0xA8], [CHR 0xE2, CHR 0x80, CHR 0xA9],
      [CHR 0xE2, CHR 0x80, CHR 0xAF],
      [CHR 0xE2, CHR 0x81, CHR 0x9F],
      [CHR 0xE3, CHR 0x80, CHR 0x80]]"

fun isBlank :: "string \<Rightarrow> bool" where
  "isBlank [] = True"
| "isBlank (c # cs) =
     (if c \<in> set asciiSpace then isBlank cs
      else (case cs of
              [] \<Rightarrow> False
            | d # ds \<Rightarrow>
                if [c, d] \<in> set twoByteSpaces then isBlank ds
                else (case ds of
                        [] \<Rightarrow> False
                      | e # es \<Rightarrow>
                          if [c, d, e] \<in> set threeByteSpaces then isBlank es else False)))"

text \<open>
  The state of the relay loop of lines 591-626: the upstream body, the lines written
  to the client, the iterations begun, the calls of \<^verbatim>\<open>ReadBytes\<close>, and whether the loop
  has called \<^verbatim>\<open>cancel()\<close>.
\<close>

record RelayState =
  rl_upstream :: Upstream
  rl_written :: "string list"
  rl_iter :: nat
  rl_reads :: nat
  rl_cancelled :: bool

datatype RelayExit = ContextDone | ReadError | WriteError

datatype RelayResult = Closed RelayExit RelayState | Running RelayState

text \<open>
  The loop, with one unit of fuel per iteration; \<open>Running\<close> is the loop still going when
  the fuel is used up. The surroundings are two observations: \<open>ctxDone i\<close>, whether
  \<^verbatim>\<open>ctx.Done()\<close> is ready at the \<^verbatim>\<open>select\<close> of iteration \<open>i\<close> (the client went away, or the
  heartbeat activity cancelled), and \<open>writeFails k\<close>, whether the write after \<open>k\<close>
  successful ones fails. On \<^verbatim>\<open>io.EOF\<close> the source executes \<^verbatim>\<open>continue\<close>.
\<close>

fun relayLoop :: "(nat \<Rightarrow> bool) \<Rightarrow> (nat \<Rightarrow> bool) \<Rightarrow> nat \<Rightarrow> RelayState \<Rightarrow> RelayResult" where
  "relayLoop ctxDone writeFails 0 st = Running st"
| "relayLoop ctxDone writeFails (Suc fuel) st =
     (if ctxDone (rl_iter st) then Closed ContextDone st
      else
        (case ReadBytes (rl_upstream st) of
           (line, err, up') \<Rightarrow>
             let st = st\<lparr>rl_upstream := up', rl_iter := Suc (rl_iter st),
                         rl_reads := Suc (rl_reads st)\<rparr>
             in (case err of
                   Some EOF \<Rightarrow> relayLoop ctxDone writeFails fuel st
                 | Some ReadFailure \<Rightarrow> Closed ReadError (st\<lparr>rl_cancelled := True\<rparr>)
                 | None \<Rightarrow>
                     if isBlank line then relayLoop ctxDone writeFails fuel st
                     else if writeFails (length (rl_written st)) then
                       Closed WriteError (st\<lparr>rl_cancelled := True\<rparr>)
                     else relayLoop ctxDone writeFails fuel
                            (st\<lparr>rl_written := rl_written st @ [line]\<rparr>))))"

definition relayStart :: "Upstream \<Rightarrow> RelayState" where
  "relayStart up =
     \<lparr>rl_upstream = up, rl_written = [], rl_iter = 0, rl_reads = 0, rl_cancelled = False\<rparr>"

section \<open>Reading an outcome, the spec's tool-choice table, sample inputs\<close>

fun outcome_status :: "Outcome \<Rightarrow> int" where
  "outcome_status (Respond resp) = rs_StatusCode resp"
| "outcome_status (Relay code w) = code"

fun outcome_header :: "Outcome \<Rightarrow> Header" where
  "outcome_header (Respond resp) = rs_Header resp"
| "outcome_header (Relay code w) = w"

fun outcome_body :: "Outcome \<Rightarrow> body option" where
  "outcome_body (Respond resp) = Some (rs_Body resp)"
| "outcome_body (Relay code w) = None"

text \<open>
  The tool-choice table as the specification words it: \<^verbatim>\<open>nil\<close> is omitted, the strings
  \<^verbatim>\<open>"auto"\<close> and \<^verbatim>\<open>"none"\<close> pass through, an object of type \<^verbatim>\<open>"function"\<close> collapses to
  \<^verbatim>\<open>"auto"\<close>, any other shape is omitted. \<open>None\<close> stands for "no tool choice emitted".
\<close>

fun toolChoiceTable :: "json \<Rightarrow> string option" where
  "toolChoiceTable JNull = None"
| "toolChoiceTable (JString s) =
     (if s = ''auto'' then Some ''auto'' else if s = ''none'' then Some ''none'' else None)"
| "toolChoiceTable (JObject obj) =
     (if map_of obj ''type'' = Some (JString ''function'') then Some ''auto'' else None)"
| "toolChoiceTable _ = None"

text \<open>The tool calls of every choice of a reply, choice by choice.\<close>

definition toolCallsOf :: "ChatResponse \<Rightarrow> ToolCall list list" where
  "toolCallsOf r = map (\<lambda>c. msg_ToolCalls (ch_Message c)) (rp_Choices r)"

text \<open>Sample inputs. \<open>dq\<close> is the double quote of a JSON text.\<close>

definition dq :: string where
  "dq = [CHR 0x22]"

definition sampleConfig :: Config where
  "sampleConfig = \<lparr>endpoint = deepseekEndpoint, model = deepseekChatModel, apiKey = ''sk-test''\<rparr>"

definition sampleEnv :: "UpstreamReply option \<Rightarrow> Env" where
  "sampleEnv reply =
     \<lparr>env_now = 1700000000, env_NewRequest_ok = (\<lambda>m u. True), env_Do = (\<lambda>p. reply)\<rparr>"

definition sampleRequest :: "string \<Rightarrow> string \<Rightarrow> ChatRequest payload \<Rightarrow> Request" where
  "sampleRequest verb path content =
     \<lparr>rq_Method = verb, rq_Path = path, rq_RawQuery = '''',
      rq_Header = [''Authorization'' \<mapsto> [''Bearer sk-test'']],
      rq_Body = content\<rparr>"

definition userMessage :: Message where
  "userMessage = \<lparr>msg_Role = ''user'', msg_Content = ''hi'', msg_ToolCalls = [],
                   msg_ToolCallID = '''', msg_Name = ''''\<rparr>"

definition sampleToolCall :: "string \<Rightarrow> string \<Rightarrow> ToolCall" where
  "sampleToolCall ident name =
     \<lparr>tc_ID = ident, tc_Type = ''function'',
      tc_Function = \<lparr>tcf_Name = name, tcf_Arguments = ''{}''\<rparr>\<rparr>"

definition sampleMessages :: "Message list" where
  "sampleMessages =
     [userMessage,
      \<lparr>msg_Role = ''assistant'', msg_Content = '''',
        msg_ToolCalls = [\<lparr>tc_ID = ''c1'', tc_Type = ''fn'',
          tc_Function = \<lparr>tcf_Name = ''f'', tcf_Arguments = ''{}''\<rparr>\<rparr>],
        msg_ToolCallID = '''', msg_Name = ''''\<rparr>,
      \<lparr>msg_Role = ''function'', msg_Content = ''42'', msg_ToolCalls = [],
        msg_ToolCallID = ''c1'', msg_Name = ''f''\<rparr>]"

text \<open>
  \<^verbatim>\<open>{"model":M,"messages":[{"role":"user","content":"hi"}]}\<close> with further members
  \<open>extra\<close>, and the struct it decodes into once the caller has set the fields that
  \<open>extra\<close> names.
\<close>

definition chatBytes :: "string \<Rightarrow> string \<Rightarrow> string" where
  "chatBytes m extra =
     ''{'' @ dq @ ''model'' @ dq @ '':'' @ dq @ m @ dq @ '','' @ dq @ ''messages'' @ dq
       @ '':[{'' @ dq @ ''role'' @ dq @ '':'' @ dq @ ''user'' @ dq @ '','' @ dq @ ''content''
       @ dq @ '':'' @ dq @ ''hi'' @ dq @ ''}]'' @ extra @ ''}''"

definition chatStruct :: "string \<Rightarrow> ChatRequest" where
  "chatStruct m =
     \<lparr>cr_Model = m, cr_Messages = [userMessage], cr_Stream = False, cr_Functions = [],
      cr_Tools = [], cr_ToolChoice = JNull, cr_Temperature = None, cr_MaxTokens = None\<rparr>"

definition sampleTool :: Tool where
  "sampleTool =
     \<lparr>tool_Type = ''function'',
      tool_Function = \<lparr>fn_Name = ''f'', fn_Description = ''d'', fn_Parameters = JObject []\<rparr>\<rparr>"

text \<open>
  An upstream error reply with the given status and headers. Its bytes are \<^verbatim>\<open>{}\<close>, which
  decode into the zero value of the reply struct.
\<close>

definition zeroResponse :: ChatResponse where
  "zeroResponse =
     \<lparr>rp_ID = '''', rp_Object = '''', rp_Created = 0, rp_Model = '''', rp_Choices = [],
      rp_Usage = \<lparr>us_PromptTokens = 0, us_CompletionTokens = 0, us_TotalTokens = 0\<rparr>\<rparr>"

definition sampleErrorReply :: "int \<Rightarrow> Header \<Rightarrow> UpstreamReply" where
  "sampleErrorReply code hdr =
     \<lparr>up_StatusCode = code, up_Header = hdr, up_Body = Parsed ''{}'' zeroResponse\<rparr>"

text \<open>A reply with one choice whose message carries the given tool calls.\<close>

definition sampleReply :: "ToolCall list \<Rightarrow> ChatResponse" where
  "sampleReply tcs =
     \<lparr>rp_ID = ''r1'', rp_Object = ''chat.completion'', rp_Created = 1700000000,
      rp_Model = deepseekChatModel,
      rp_Choices = [\<lparr>ch_Index = 0,
                     ch_Message = \<lparr>msg_Role = ''assistant'', msg_Content = '''',
                                   msg_ToolCalls = tcs, msg_ToolCallID = '''',
                                   msg_Name = ''''\<rparr>,
                     ch_FinishReason = ''tool_calls''\<rparr>],
      rp_Usage = \<lparr>us_PromptTokens = 1, us_CompletionTokens = 1, us_TotalTokens = 2\<rparr>\<rparr>"

text \<open>The two checks of the \<^verbatim>\<open>Authorization\<close> header that \<^verbatim>\<open>proxyHandler\<close> makes.\<close>

definition authorized :: "Config \<Rightarrow> Request \<Rightarrow> bool" where
  "authorized activeConfig r =
     (prefix ''Bearer '' (Header_Get (rq_Header r) ''Authorization'') \<and>
      drop (length ''Bearer '') (Header_Get (rq_Header r) ''Authorization'')
        = apiKey activeConfig)"

text \<open>A chat request for the advertised model, and an upstream reply with status 429.\<close>

definition sampleChat :: "ChatRequest \<Rightarrow> string \<Rightarrow> Request" where
  "sampleChat chatReq extra =
     sampleRequest ''POST'' ''/v1/chat/completions''
       (Parsed (chatBytes (cr_Model chatReq) extra) chatReq)"

definition sampleRateLimited :: UpstreamReply where
  "sampleRateLimited =
     sampleErrorReply 429
       [''Content-Type'' \<mapsto> [''text/plain''], ''Connection'' \<mapsto> [''close''],
        ''Retry-After'' \<mapsto> [''30'']]"

text \<open>
  Chat requests for the advertised model: one with \<^verbatim>\<open>"tool_choice":"auto"\<close> and neither
  tools nor functions, one with a tool and a tool choice that names a function, one
  with \<^verbatim>\<open>"temperature":0,"max_tokens":0\<close>; each with the members its JSON text adds.
\<close>

definition sampleAutoNoTools :: ChatRequest where
  "sampleAutoNoTools = (chatStruct ''gpt-4o'')\<lparr>cr_ToolChoice := JString ''auto''\<rparr>"

definition sampleAutoNoTools_extra :: string where
  "sampleAutoNoTools_extra = '','' @ dq @ ''tool_choice'' @ dq @ '':'' @ dq @ ''auto'' @ dq"

definition sampleFunctionChoice :: ChatRequest where
  "sampleFunctionChoice =
     (chatStruct ''gpt-4o'')
       \<lparr>cr_Tools := [sampleTool],
        cr_ToolChoice := JObject [(''type'', JString ''function''),
                                 (''function'', JObject [(''name'', JString ''f'')])]\<rparr>"

definition sampleFunctionChoice_extra :: string where
  "sampleFunctionChoice_extra =
     '','' @ dq @ ''tools'' @ dq @ '':[{'' @ dq @ ''type'' @ dq @ '':'' @ dq @ ''function'' @ dq
       @ '','' @ dq @ ''function'' @ dq @ '':{'' @ dq @ ''name'' @ dq @ '':'' @ dq @ ''f'' @ dq
       @ '','' @ dq @ ''description'' @ dq @ '':'' @ dq @ ''d'' @ dq
       @ '','' @ dq @ ''parameters'' @ dq @ '':{}}}],'' @ dq @ ''tool_choice'' @ dq @ '':{''
       @ dq @ ''type'' @ dq @ '':'' @ dq @ ''function'' @ dq @ '','' @ dq @ ''function'' @ dq
       @ '':{'' @ dq @ ''name'' @ dq @ '':'' @ dq @ ''f'' @ dq @ ''}}''"

definition sampleZeroScalars :: ChatRequest where
  "sampleZeroScalars =
     (chatStruct ''gpt-4o'')\<lparr>cr_Temperature := Some 0, cr_MaxTokens := Some 0\<rparr>"

definition sampleZeroScalars_extra :: string where
  "sampleZeroScalars_extra =
     '','' @ dq @ ''temperature'' @ dq @ '':0,'' @ dq @ ''max_tokens'' @ dq @ '':0''"

text \<open>
  The request that \<^verbatim>\<open>proxyHandler\<close> hands to \<^verbatim>\<open>httpClient.Do\<close> for a chat request it
  forwards: built after line 412 has overwritten the model of the decoded request.
\<close>

definition forwardedRequest :: "Config \<Rightarrow> Request \<Rightarrow> ChatRequest \<Rightarrow> ProxyRequest" where
  "forwardedRequest activeConfig r chatReq =
     buildProxyRequest activeConfig r (chatReq\<lparr>cr_Model := model activeConfig\<rparr>)"

text \<open>
  A chat request with a tool and \<^verbatim>\<open>"tool_choice":"required"\<close>, a shape outside the
  table's three.
\<close>

definition sampleRequiredChoice :: ChatRequest where
  "sampleRequiredChoice =
     (chatStruct ''gpt-4o'')\<lparr>cr_Tools := [sampleTool], cr_ToolChoice := JString ''required''\<rparr>"

definition sampleRequiredChoice_extra :: string where
  "sampleRequiredChoice_extra =
     '','' @ dq @ ''tools'' @ dq @ '':[{'' @ dq @ ''type'' @ dq @ '':'' @ dq @ ''function'' @ dq
       @ '','' @ dq @ ''function'' @ dq @ '':{'' @ dq @ ''name'' @ dq @ '':'' @ dq @ ''f'' @ dq
       @ '','' @ dq @ ''description'' @ dq @ '':'' @ dq @ ''d'' @ dq
       @ '','' @ dq @ ''parameters'' @ dq @ '':{}}}],'' @ dq @ ''tool_choice'' @ dq @ '':''
       @ dq @ ''required'' @ dq"

section \<open>Properties of the request translation\<close>

lemma convertMessages_length: "length (convertMessages messages) = length messages"
  by (induction messages) simp_all

lemma convertMessages_nth:
  "i < length messages \<Longrightarrow> convertMessages messages ! i = convertMessage (messages ! i)"
proof (induction messages arbitrary: i)
  case Nil
  then show ?case by simp
next
  case (Cons msg messages)
  then show ?case by (cases i) simp_all
qed

lemma convertMessage_other:
  "msg_Role msg \<noteq> ''function'' \<Longrightarrow>
   \<not> (msg_Role msg = ''assistant'' \<and> msg_ToolCalls msg \<noteq> []) \<Longrightarrow>
   convertMessage msg = msg"
  by (auto simp: convertMessage_def Let_def)

lemma convertMessage_assistant:
  "msg_Role msg = ''assistant'' \<Longrightarrow> msg_ToolCalls msg \<noteq> [] \<Longrightarrow>
   convertMessage msg = msg\<lparr>msg_ToolCalls := map convertToolCall (msg_ToolCalls msg)\<rparr>"
  by (simp add: convertMessage_def Let_def)

lemma convertMessage_function:
  "msg_Role msg = ''function'' \<Longrightarrow> convertMessage msg = msg\<lparr>msg_Role := ''tool''\<rparr>"
  by (simp add: convertMessage_def Let_def)

text \<open>
  C10. \<^verbatim>\<open>convertMessages\<close> returns a list of the same length. At every index, a message
  whose role is neither \<^verbatim>\<open>"function"\<close> nor \<^verbatim>\<open>"assistant"\<close> with at least one tool call
  is returned unchanged; an assistant message with tool calls keeps role, content,
  tool-call id and name, and keeps the number and order of its tool calls, each with
  its id and function payload, the type being \<^verbatim>\<open>"function"\<close>; a \<^verbatim>\<open>"function"\<close> message
  keeps every field but the role, which is \<^verbatim>\<open>"tool"\<close>.
\<close>

theorem convertMessages_frame:
  "length (convertMessages messages) = length messages \<and>
   (\<forall>i < length messages.
      let msg = messages ! i; out = convertMessages messages ! i in
        (msg_Role msg \<noteq> ''function'' \<and>
         \<not> (msg_Role msg = ''assistant'' \<and> msg_ToolCalls msg \<noteq> []) \<longrightarrow> out = msg) \<and>
        (msg_Role msg = ''assistant'' \<and> msg_ToolCalls msg \<noteq> [] \<longrightarrow>
           msg_Role out = msg_Role msg \<and> msg_Content out = msg_Content msg \<and>
           msg_ToolCallID out = msg_ToolCallID msg \<and> msg_Name out = msg_Name msg \<and>
           length (msg_ToolCalls out) = length (msg_ToolCalls msg) \<and>
           (\<forall>j < length (msg_ToolCalls msg).
              tc_ID (msg_ToolCalls out ! j) = tc_ID (msg_ToolCalls msg ! j) \<and>
              tc_Function (msg_ToolCalls out ! j) = tc_Function (msg_ToolCalls msg ! j) \<and>
              tc_Type (msg_ToolCalls out ! j) = ''function'')) \<and>
        (msg_Role msg = ''function'' \<longrightarrow>
           out = msg\<lparr>msg_Role := ''tool''\<rparr>))"
proof (intro conjI allI impI)
  show "length (convertMessages messages) = length messages"
    by (rule convertMessages_length)
next
  fix i
  assume i: "i < length messages"
  have out: "convertMessages messages ! i = convertMessage (messages ! i)"
    using i by (rule convertMessages_nth)
  show "let msg = messages ! i; out = convertMessages messages ! i in
        (msg_Role msg \<noteq> ''function'' \<and>
         \<not> (msg_Role msg = ''assistant'' \<and> msg_ToolCalls msg \<noteq> []) \<longrightarrow> out = msg) \<and>
        (msg_Role msg = ''assistant'' \<and> msg_ToolCalls msg \<noteq> [] \<longrightarrow>
           msg_Role out = msg_Role msg \<and> msg_Content out = msg_Content msg \<and>
           msg_ToolCallID out = msg_ToolCallID msg \<and> msg_Name out = msg_Name msg \<and>
           length (msg_ToolCalls out) = length (msg_ToolCalls msg) \<and>
           (\<forall>j < length (msg_ToolCalls msg).
              tc_ID (msg_ToolCalls out ! j) = tc_ID (msg_ToolCalls msg ! j) \<and>
              tc_Function (msg_ToolCalls out ! j) = tc_Function (msg_ToolCalls msg ! j) \<and>
              tc_Type (msg_ToolCalls out ! j) = ''function'')) \<and>
        (msg_Role msg = ''function'' \<longrightarrow>
           out = msg\<lparr>msg_Role := ''tool''\<rparr>)"
    unfolding Let_def out
    by (auto simp: convertMessage_other convertMessage_assistant convertMessage_function
        convertToolCall_def)
qed

theorem convertMessages_frame_witness:
  "length (convertMessages sampleMessages) = 3 \<and>
   convertMessages sampleMessages ! 0 = sampleMessages ! 0 \<and>
   map tc_Type (msg_ToolCalls (convertMessages sampleMessages ! 1)) = [''function''] \<and>
   map tc_ID (msg_ToolCalls (convertMessages sampleMessages ! 1)) = [''c1''] \<and>
   convertMessages sampleMessages ! 2 = (sampleMessages ! 2)\<lparr>msg_Role := ''tool''\<rparr>"
  using convertMessages_frame [of sampleMessages]
  by (simp add: sampleMessages_def userMessage_def All_less_Suc Let_def
      convertMessage_def convertToolCall_def)

section \<open>Properties of the request handler\<close>

lemma buildDeepSeekRequest_model_irrelevant:
  "buildDeepSeekRequest activeConfig (chatReq\<lparr>cr_Model := m\<rparr>) =
   buildDeepSeekRequest activeConfig chatReq"
  by (simp add: buildDeepSeekRequest_def Let_def)

text \<open>
  When the handler hands a request to \<^verbatim>\<open>httpClient.Do\<close>, the inbound body was decoded,
  named the advertised model, and the outcome is decided by the upstream reply.
\<close>

lemma proxyHandler_forwarded:
  assumes "snd (proxyHandler activeConfig env r) = [proxyReq]"
  shows "\<exists>bytes chatReq.
           rq_Body r = Parsed bytes chatReq \<and> cr_Model chatReq = gpt4oModel \<and>
           proxyReq = buildProxyRequest activeConfig r (chatReq\<lparr>cr_Model := model activeConfig\<rparr>) \<and>
           fst (proxyHandler activeConfig env r) =
             (case env_Do env proxyReq of
                None \<Rightarrow> Respond (http_Error (enableCors Map.empty) ''Error forwarding request'' 502)
              | Some resp \<Rightarrow> dispatchReply (enableCors Map.empty)
                               (chatReq\<lparr>cr_Model := model activeConfig\<rparr>) resp)"
  using assms
  by (auto simp: proxyHandler_def Let_def split: if_splits payload.splits option.splits)

text \<open>
  C6. An authorized chat request (any method but \<^verbatim>\<open>OPTIONS\<close>, a path under \<^verbatim>\<open>/v1/\<close> other
  than the model list) whose body parses and whose model is not \<^verbatim>\<open>gpt-4o\<close> is answered
  with status 400; the body is \<^verbatim>\<open>Model M not supported. Use gpt-4o instead.\<close> and so
  names the rejected and the accepted model; nothing is sent upstream.
\<close>

theorem unsupported_model_rejected:
  assumes "rq_Method r \<noteq> ''OPTIONS''"
    and "authorized activeConfig r"
    and "prefix ''/v1/'' (rq_Path r)"
    and "rq_Path r \<noteq> ''/v1/models''"
    and "rq_Body r = Parsed bytes chatReq"
    and "cr_Model chatReq \<noteq> gpt4oModel"
  shows "outcome_status (fst (proxyHandler activeConfig env r)) = 400 \<and>
         outcome_body (fst (proxyHandler activeConfig env r)) =
           Some (Bytes (''Model '' @ cr_Model chatReq @ '' not supported. Use '' @ gpt4oModel
                        @ '' instead.'' @ [CHR 0x0A])) \<and>
         sublist (cr_Model chatReq)
           (''Model '' @ cr_Model chatReq @ '' not supported. Use '' @ gpt4oModel
              @ '' instead.'' @ [CHR 0x0A]) \<and>
         sublist gpt4oModel
           (''Model '' @ cr_Model chatReq @ '' not supported. Use '' @ gpt4oModel
              @ '' instead.'' @ [CHR 0x0A]) \<and>
         snd (proxyHandler activeConfig env r) = []"
proof -
  have out: "proxyHandler activeConfig env r =
      (Respond (http_Error (enableCors Map.empty)
         (''Model '' @ cr_Model chatReq @ '' not supported. Use '' @ gpt4oModel @ '' instead.'')
         400), [])"
    using assms by (simp add: proxyHandler_def authorized_def Let_def)
  have rejected: "sublist (cr_Model chatReq)
      (''Model '' @ cr_Model chatReq @ '' not supported. Use '' @ gpt4oModel
         @ '' instead.'' @ [CHR 0x0A])"
    by (rule sublist_appendI)
  have "sublist gpt4oModel
      ((''Model '' @ cr_Model chatReq @ '' not supported. Use '') @ gpt4oModel
         @ ('' instead.'' @ [CHR 0x0A]))"
    by (rule sublist_appendI)
  then have accepted: "sublist gpt4oModel
      (''Model '' @ cr_Model chatReq @ '' not supported. Use '' @ gpt4oModel
         @ '' instead.'' @ [CHR 0x0A])"
    by simp
  show ?thesis
    using rejected accepted by (simp add: out http_Error_def)
qed

theorem unsupported_model_rejected_witness:
  "outcome_status (fst (proxyHandler sampleConfig (sampleEnv None)
      (sampleChat (chatStruct ''gpt-4'') ''''))) = 400 \<and>
   outcome_body (fst (proxyHandler sampleConfig (sampleEnv None)
      (sampleChat (chatStruct ''gpt-4'') ''''))) =
     Some (Bytes (''Model gpt-4 not supported. Use gpt-4o instead.'' @ [CHR 0x0A])) \<and>
   snd (proxyHandler sampleConfig (sampleEnv None) (sampleChat (chatStruct ''gpt-4'') '''')) = []"
  using unsupported_model_rejected [of "sampleChat (chatStruct ''gpt-4'') ''''" sampleConfig
      "chatBytes ''gpt-4'' ''''" "chatStruct ''gpt-4''" "sampleEnv None"]
  by (simp add: sampleChat_def sampleRequest_def sampleConfig_def chatStruct_def
      authorized_def Header_Get_def gpt4oModel_def)

text \<open>
  C8, as stated, fails: an authorized \<^verbatim>\<open>GET /health\<close> with an empty body is answered with
  status 400 (\<^verbatim>\<open>Invalid JSON\<close>), since the body is decoded before the path is looked at.
\<close>

theorem path_outside_prefix_counterexample:
  "rq_Method (sampleRequest ''GET'' ''/health'' (Malformed '''')) \<noteq> ''OPTIONS'' \<and>
   authorized sampleConfig (sampleRequest ''GET'' ''/health'' (Malformed '''')) \<and>
   \<not> prefix ''/v1/'' (rq_Path (sampleRequest ''GET'' ''/health'' (Malformed ''''))) \<and>
   outcome_status (fst (proxyHandler sampleConfig (sampleEnv None)
      (sampleRequest ''GET'' ''/health'' (Malformed '''')))) = 400"
  by (simp add: proxyHandler_def sampleRequest_def sampleConfig_def authorized_def
      Header_Get_def http_Error_def Let_def)

text \<open>
  C8, amended. An authorized request, not \<^verbatim>\<open>OPTIONS\<close>, whose path does not start with
  \<^verbatim>\<open>/v1/\<close> is answered with status 404 when its body can be read and parses as a chat
  request, and with status 400 when the body cannot be read or does not parse; nothing
  is sent upstream.
\<close>

theorem path_outside_prefix:
  assumes "rq_Method r \<noteq> ''OPTIONS''"
    and "authorized activeConfig r"
    and "\<not> prefix ''/v1/'' (rq_Path r)"
  shows "outcome_status (fst (proxyHandler activeConfig env r)) =
           (case rq_Body r of Parsed bytes chatReq \<Rightarrow> 404 | _ \<Rightarrow> 400) \<and>
         snd (proxyHandler activeConfig env r) = []"
proof -
  have "rq_Path r \<noteq> ''/v1/models''"
    using assms(3) by auto
  then show ?thesis
    using assms
    by (simp add: proxyHandler_def authorized_def Let_def http_Error_def
        split: payload.splits)
qed

theorem path_outside_prefix_witness:
  "outcome_status (fst (proxyHandler sampleConfig (sampleEnv None)
      (sampleRequest ''POST'' ''/health''
         (Parsed (chatBytes ''gpt-4o'' '''') (chatStruct ''gpt-4o''))))) = 404 \<and>
   snd (proxyHandler sampleConfig (sampleEnv None)
      (sampleRequest ''POST'' ''/health''
         (Parsed (chatBytes ''gpt-4o'' '''') (chatStruct ''gpt-4o'')))) = []"
  using path_outside_prefix [of "sampleRequest ''POST'' ''/health''
      (Parsed (chatBytes ''gpt-4o'' '''') (chatStruct ''gpt-4o''))" sampleConfig "sampleEnv None"]
  by (simp add: sampleRequest_def sampleConfig_def authorized_def Header_Get_def)

text \<open>
  C7, as stated, fails on the headers: for an upstream reply with status 429 and the
  headers \<^verbatim>\<open>Content-Type: text/plain\<close>, \<^verbatim>\<open>Connection: close\<close>, the client gets
  \<^verbatim>\<open>Content-Type: application/json\<close>, not the upstream content type, and gets the
  hop-by-hop header \<^verbatim>\<open>Connection: close\<close>.
\<close>

theorem upstream_error_headers_counterexample:
  "up_StatusCode sampleRateLimited \<ge> 400 \<and>
   up_Header sampleRateLimited ''Content-Type'' = Some [''text/plain''] \<and>
   outcome_header (fst (proxyHandler sampleConfig (sampleEnv (Some sampleRateLimited))
      (sampleChat (chatStruct ''gpt-4o'') ''''))) ''Content-Type''
     = Some [''application/json''] \<and>
   ''Connection'' \<in> set skipHeaders \<and>
   outcome_header (fst (proxyHandler sampleConfig (sampleEnv (Some sampleRateLimited))
      (sampleChat (chatStruct ''gpt-4o'') ''''))) ''Connection''
     = Some [''close'']"
  by (simp add: proxyHandler_def dispatchReply_def sampleRateLimited_def sampleErrorReply_def
      sampleChat_def sampleRequest_def sampleConfig_def sampleEnv_def chatStruct_def
      Header_Get_def Header_Set_def gpt4oModel_def skipHeaders_def Let_def)

text \<open>
  C7, amended. When the upstream reply to a forwarded request has a status of 400 or
  more and its body can be read, the client gets the upstream status unchanged and the
  upstream bytes unchanged, untranslated; \<^verbatim>\<open>Content-Type\<close> is \<^verbatim>\<open>application/json\<close>; every
  other upstream header outside the hop-by-hop list is there with its upstream values.
\<close>

theorem upstream_error_forwarded:
  assumes "snd (proxyHandler activeConfig env r) = [proxyReq]"
    and "env_Do env proxyReq = Some resp"
    and "up_StatusCode resp \<ge> 400"
    and "payload_bytes (up_Body resp) = Some respBody"
  shows "outcome_status (fst (proxyHandler activeConfig env r)) = up_StatusCode resp \<and>
         outcome_body (fst (proxyHandler activeConfig env r)) = Some (Bytes respBody) \<and>
         outcome_header (fst (proxyHandler activeConfig env r)) ''Content-Type''
           = Some [''application/json''] \<and>
         (\<forall>k vv. k \<notin> set skipHeaders \<and> k \<noteq> ''Content-Type'' \<and> up_Header resp k = Some vv
            \<longrightarrow> outcome_header (fst (proxyHandler activeConfig env r)) k = Some vv)"
proof -
  obtain chatReq where
    "fst (proxyHandler activeConfig env r) =
       dispatchReply (enableCors Map.empty) (chatReq\<lparr>cr_Model := model activeConfig\<rparr>) resp"
    using proxyHandler_forwarded [OF assms(1)] assms(2) by auto
  then show ?thesis
    using assms(3,4) by (simp add: dispatchReply_def Header_Set_def)
qed

theorem upstream_error_forwarded_witness:
  "outcome_status (fst (proxyHandler sampleConfig (sampleEnv (Some sampleRateLimited))
      (sampleChat (chatStruct ''gpt-4o'') ''''))) = 429 \<and>
   outcome_body (fst (proxyHandler sampleConfig (sampleEnv (Some sampleRateLimited))
      (sampleChat (chatStruct ''gpt-4o'') ''''))) = Some (Bytes ''{}'') \<and>
   outcome_header (fst (proxyHandler sampleConfig (sampleEnv (Some sampleRateLimited))
      (sampleChat (chatStruct ''gpt-4o'') ''''))) ''Retry-After'' = Some [''30'']"
proof -
  have sent: "snd (proxyHandler sampleConfig (sampleEnv (Some sampleRateLimited))
      (sampleChat (chatStruct ''gpt-4o'') ''''))
    = [buildProxyRequest sampleConfig (sampleChat (chatStruct ''gpt-4o'') '''')
         ((chatStruct ''gpt-4o'')\<lparr>cr_Model := model sampleConfig\<rparr>)]"
    by (simp add: proxyHandler_def sampleChat_def sampleRequest_def sampleConfig_def
        sampleEnv_def chatStruct_def Header_Get_def gpt4oModel_def Let_def)
  have reply: "env_Do (sampleEnv (Some sampleRateLimited))
      (buildProxyRequest sampleConfig (sampleChat (chatStruct ''gpt-4o'') '''')
         ((chatStruct ''gpt-4o'')\<lparr>cr_Model := model sampleConfig\<rparr>)) = Some sampleRateLimited"
    by (simp add: sampleEnv_def)
  have status: "up_StatusCode sampleRateLimited \<ge> 400"
    by (simp add: sampleRateLimited_def sampleErrorReply_def)
  have bytes: "payload_bytes (up_Body sampleRateLimited) = Some ''{}''"
    by (simp add: sampleRateLimited_def sampleErrorReply_def)
  have hdr: "''Retry-After'' \<notin> set skipHeaders \<and> ''Retry-After'' \<noteq> ''Content-Type'' \<and>
      up_Header sampleRateLimited ''Retry-After'' = Some [''30'']"
    by (simp add: skipHeaders_def sampleRateLimited_def sampleErrorReply_def)
  show ?thesis
    using upstream_error_forwarded [OF sent reply status bytes] hdr
    by (simp add: sampleRateLimited_def sampleErrorReply_def)
qed

section \<open>Properties of the serialized upstream request\<close>

lemma json_field_tool_choice:
  "json_field (marshal_DeepSeekRequest d) ''tool_choice'' =
     (if ds_ToolChoice d = '''' then None else Some (JString (ds_ToolChoice d)))"
  by (simp add: marshal_DeepSeekRequest_def omitempty_def)

lemma json_field_temperature:
  "json_field (marshal_DeepSeekRequest d) ''temperature'' =
     (if float64_isZero (ds_Temperature d) then None else Some (JNumber (ds_Temperature d)))"
  by (simp add: marshal_DeepSeekRequest_def omitempty_def)

lemma json_field_max_tokens:
  "json_field (marshal_DeepSeekRequest d) ''max_tokens'' =
     (if ds_MaxTokens d = 0 then None else Some (JInt (ds_MaxTokens d)))"
  by (simp add: marshal_DeepSeekRequest_def omitempty_def)

lemma convertToolChoice_table:
  "convertToolChoice choice = (case toolChoiceTable choice of None \<Rightarrow> '''' | Some s \<Rightarrow> s)"
  by (cases choice) auto

lemma buildDeepSeekRequest_ToolChoice:
  "ds_ToolChoice (buildDeepSeekRequest activeConfig chatReq) =
     (if cr_Tools chatReq = [] \<and> cr_Functions chatReq = [] then ''''
      else convertToolChoice (cr_ToolChoice chatReq))"
  by (simp add: buildDeepSeekRequest_def Let_def split: option.splits)

lemma buildDeepSeekRequest_Temperature:
  "ds_Temperature (buildDeepSeekRequest activeConfig chatReq) =
     (case cr_Temperature chatReq of None \<Rightarrow> 0 | Some t \<Rightarrow> t)"
  by (simp add: buildDeepSeekRequest_def Let_def split: option.splits)

lemma buildDeepSeekRequest_MaxTokens:
  "ds_MaxTokens (buildDeepSeekRequest activeConfig chatReq) =
     (case cr_MaxTokens chatReq of None \<Rightarrow> 0 | Some n \<Rightarrow> n)"
  by (simp add: buildDeepSeekRequest_def Let_def split: option.splits)

lemma toolChoiceTable_nonempty: "toolChoiceTable choice = Some s \<Longrightarrow> s \<noteq> ''''"
  by (cases choice) (auto split: if_splits)

lemma proxyHandler_sent_body:
  assumes "snd (proxyHandler activeConfig env r) = [proxyReq]"
    and "rq_Body r = Parsed bytes chatReq"
  shows "pr_Body proxyReq = marshal_DeepSeekRequest (buildDeepSeekRequest activeConfig chatReq)"
  using proxyHandler_forwarded [OF assms(1)] assms(2)
  by (auto simp: buildProxyRequest_def Let_def buildDeepSeekRequest_model_irrelevant)

text \<open>
  The requests that reach the upstream call, for the sample configuration: the body
  of the one request sent is the encoding of the translated request.
\<close>

lemma sample_sent:
  "cr_Model chatReq = ''gpt-4o'' \<Longrightarrow>
   snd (proxyHandler sampleConfig (sampleEnv reply) (sampleChat chatReq extra))
     = [buildProxyRequest sampleConfig (sampleChat chatReq extra)
          (chatReq\<lparr>cr_Model := model sampleConfig\<rparr>)]"
  by (simp add: proxyHandler_def sampleChat_def sampleRequest_def sampleConfig_def
      sampleEnv_def Header_Get_def gpt4oModel_def Let_def split: option.splits)

text \<open>
  C5, as stated, fails: a chat request with \<^verbatim>\<open>"tool_choice":"auto"\<close> and neither tools nor
  functions is forwarded without a \<^verbatim>\<open>tool_choice\<close> member, where the table passes
  \<^verbatim>\<open>"auto"\<close> through.
\<close>

theorem tool_choice_without_tools_counterexample:
  "toolChoiceTable (cr_ToolChoice sampleAutoNoTools) = Some ''auto'' \<and>
   length (snd (proxyHandler sampleConfig (sampleEnv None)
      (sampleChat sampleAutoNoTools sampleAutoNoTools_extra))) = 1 \<and>
   json_field (pr_Body (hd (snd (proxyHandler sampleConfig (sampleEnv None)
      (sampleChat sampleAutoNoTools sampleAutoNoTools_extra))))) ''tool_choice'' = None"
proof -
  have "cr_Model sampleAutoNoTools = ''gpt-4o''"
    by (simp add: sampleAutoNoTools_def chatStruct_def)
  then have "snd (proxyHandler sampleConfig (sampleEnv None)
      (sampleChat sampleAutoNoTools sampleAutoNoTools_extra))
     = [buildProxyRequest sampleConfig (sampleChat sampleAutoNoTools sampleAutoNoTools_extra)
          (sampleAutoNoTools\<lparr>cr_Model := model sampleConfig\<rparr>)]"
    by (rule sample_sent)
  then show ?thesis
    by (simp add: buildProxyRequest_def Let_def json_field_tool_choice
        buildDeepSeekRequest_ToolChoice sampleAutoNoTools_def chatStruct_def)
qed

text \<open>
  A chat request that passes every check of \<^verbatim>\<open>proxyHandler\<close> is forwarded, whatever its
  tool choice: not \<^verbatim>\<open>OPTIONS\<close>, authorized, a path under \<^verbatim>\<open>/v1/\<close> other than the model
  list, a body that decodes, the advertised model, and a method and URL that
  \<^verbatim>\<open>http.NewRequest\<close> accepts. The outcome is then decided by the upstream reply.
\<close>

lemma proxyHandler_forwards:
  assumes "rq_Method r \<noteq> ''OPTIONS''"
    and "authorized activeConfig r"
    and "prefix ''/v1/'' (rq_Path r)"
    and "rq_Path r \<noteq> ''/v1/models''"
    and "rq_Body r = Parsed bytes chatReq"
    and "cr_Model chatReq = gpt4oModel"
    and "env_NewRequest_ok env (pr_Method (forwardedRequest activeConfig r chatReq))
           (pr_URL (forwardedRequest activeConfig r chatReq))"
  shows "proxyHandler activeConfig env r =
           (case env_Do env (forwardedRequest activeConfig r chatReq) of
              None \<Rightarrow> Respond (http_Error (enableCors Map.empty) ''Error forwarding request'' 502)
            | Some resp \<Rightarrow> dispatchReply (enableCors Map.empty)
                             (chatReq\<lparr>cr_Model := model activeConfig\<rparr>) resp,
            [forwardedRequest activeConfig r chatReq])"
  using assms
  by (simp add: proxyHandler_def authorized_def forwardedRequest_def Let_def
      split: option.splits)

lemma forwardedRequest_body:
  "pr_Body (forwardedRequest activeConfig r chatReq) =
     marshal_DeepSeekRequest (buildDeepSeekRequest activeConfig chatReq)"
  by (simp add: forwardedRequest_def buildProxyRequest_def Let_def
      buildDeepSeekRequest_model_irrelevant)

text \<open>
  C5, amended. Every chat request that passes the handler's checks (not \<^verbatim>\<open>OPTIONS\<close>,
  authorized, a path under \<^verbatim>\<open>/v1/\<close> other than the model list, a body that decodes, the
  advertised model, a method and URL that \<^verbatim>\<open>http.NewRequest\<close> accepts) is forwarded as
  exactly one upstream request, whatever the shape of its tool choice: no shape is an
  error. The \<^verbatim>\<open>tool_choice\<close> member of the serialized upstream request is absent when
  the request carries neither tools nor functions; when it carries at least one tool or
  function, the member follows the table: absent for \<^verbatim>\<open>nil\<close>, \<^verbatim>\<open>"auto"\<close> and \<^verbatim>\<open>"none"\<close>
  unchanged, \<^verbatim>\<open>"auto"\<close> for an object of type \<^verbatim>\<open>"function"\<close>, absent for any other shape.
  \<^verbatim>\<open>convertToolChoice\<close> is that table, with the empty string for "absent".
\<close>

theorem tool_choice_collapsed:
  assumes "rq_Method r \<noteq> ''OPTIONS''"
    and "authorized activeConfig r"
    and "prefix ''/v1/'' (rq_Path r)"
    and "rq_Path r \<noteq> ''/v1/models''"
    and "rq_Body r = Parsed bytes chatReq"
    and "cr_Model chatReq = gpt4oModel"
    and "env_NewRequest_ok env (pr_Method (forwardedRequest activeConfig r chatReq))
           (pr_URL (forwardedRequest activeConfig r chatReq))"
  shows "snd (proxyHandler activeConfig env r) = [forwardedRequest activeConfig r chatReq] \<and>
         json_field (pr_Body (forwardedRequest activeConfig r chatReq)) ''tool_choice'' =
           (if cr_Tools chatReq = [] \<and> cr_Functions chatReq = [] then None
            else map_option JString (toolChoiceTable (cr_ToolChoice chatReq))) \<and>
         convertToolChoice (cr_ToolChoice chatReq) =
           (case toolChoiceTable (cr_ToolChoice chatReq) of None \<Rightarrow> '''' | Some s \<Rightarrow> s)"
proof (intro conjI)
  show "snd (proxyHandler activeConfig env r) = [forwardedRequest activeConfig r chatReq]"
    using proxyHandler_forwards [OF assms] by simp
next
  show "json_field (pr_Body (forwardedRequest activeConfig r chatReq)) ''tool_choice'' =
           (if cr_Tools chatReq = [] \<and> cr_Functions chatReq = [] then None
            else map_option JString (toolChoiceTable (cr_ToolChoice chatReq)))"
  proof (cases "toolChoiceTable (cr_ToolChoice chatReq)")
    case None
    then show ?thesis
      by (simp add: forwardedRequest_body json_field_tool_choice
          buildDeepSeekRequest_ToolChoice convertToolChoice_table)
  next
    case (Some s)
    then have "s \<noteq> ''''"
      by (rule toolChoiceTable_nonempty)
    with Some show ?thesis
      by (simp add: forwardedRequest_body json_field_tool_choice
          buildDeepSeekRequest_ToolChoice convertToolChoice_table)
  qed
next
  show "convertToolChoice (cr_ToolChoice chatReq) =
          (case toolChoiceTable (cr_ToolChoice chatReq) of None \<Rightarrow> '''' | Some s \<Rightarrow> s)"
    by (rule convertToolChoice_table)
qed

text \<open>
  The theorem at two requests with a tool: a tool choice that names a function is
  forwarded as \<^verbatim>\<open>"auto"\<close>; the tool choice \<^verbatim>\<open>"required"\<close>, outside the table, is forwarded
  without a \<^verbatim>\<open>tool_choice\<close> member.
\<close>

theorem tool_choice_collapsed_witness:
  "snd (proxyHandler sampleConfig (sampleEnv None)
      (sampleChat sampleFunctionChoice sampleFunctionChoice_extra))
     = [forwardedRequest sampleConfig
          (sampleChat sampleFunctionChoice sampleFunctionChoice_extra) sampleFunctionChoice] \<and>
   json_field (pr_Body (hd (snd (proxyHandler sampleConfig (sampleEnv None)
      (sampleChat sampleFunctionChoice sampleFunctionChoice_extra))))) ''tool_choice''
     = Some (JString ''auto'') \<and>
   snd (proxyHandler sampleConfig (sampleEnv None)
      (sampleChat sampleRequiredChoice sampleRequiredChoice_extra))
     = [forwardedRequest sampleConfig
          (sampleChat sampleRequiredChoice sampleRequiredChoice_extra) sampleRequiredChoice] \<and>
   json_field (pr_Body (hd (snd (proxyHandler sampleConfig (sampleEnv None)
      (sampleChat sampleRequiredChoice sampleRequiredChoice_extra))))) ''tool_choice''
     = None"
proof -
  have envelope: "rq_Method (sampleChat c x) \<noteq> ''OPTIONS''"
    "authorized sampleConfig (sampleChat c x)"
    "prefix ''/v1/'' (rq_Path (sampleChat c x))"
    "rq_Path (sampleChat c x) \<noteq> ''/v1/models''"
    "rq_Body (sampleChat c x) = Parsed (chatBytes (cr_Model c) x) c"
    "env_NewRequest_ok (sampleEnv None) (pr_Method (forwardedRequest sampleConfig (sampleChat c x) c))
       (pr_URL (forwardedRequest sampleConfig (sampleChat c x) c))"
    for c x
    by (simp_all add: sampleChat_def sampleRequest_def sampleConfig_def sampleEnv_def
        authorized_def Header_Get_def)
  have named: "cr_Model sampleFunctionChoice = gpt4oModel"
    by (simp add: sampleFunctionChoice_def chatStruct_def gpt4oModel_def)
  have other: "cr_Model sampleRequiredChoice = gpt4oModel"
    by (simp add: sampleRequiredChoice_def chatStruct_def gpt4oModel_def)
  note function_choice =
    tool_choice_collapsed [OF envelope(1-5) named envelope(6),
      of sampleFunctionChoice_extra]
  note required_choice =
    tool_choice_collapsed [OF envelope(1-5) other envelope(6),
      of sampleRequiredChoice_extra]
  show ?thesis
    using function_choice required_choice
    by (simp add: sampleFunctionChoice_def sampleRequiredChoice_def chatStruct_def)
qed

text \<open>
  C4 at the input \<^verbatim>\<open>"temperature":0,"max_tokens":0\<close>: both members are present on the
  input, and the serialized upstream request has neither.
\<close>

theorem zero_scalars_dropped:
  "cr_Temperature sampleZeroScalars = Some 0 \<and>
   cr_MaxTokens sampleZeroScalars = Some 0 \<and>
   length (snd (proxyHandler sampleConfig (sampleEnv None)
      (sampleChat sampleZeroScalars sampleZeroScalars_extra))) = 1 \<and>
   json_field (pr_Body (hd (snd (proxyHandler sampleConfig (sampleEnv None)
      (sampleChat sampleZeroScalars sampleZeroScalars_extra))))) ''temperature'' = None \<and>
   json_field (pr_Body (hd (snd (proxyHandler sampleConfig (sampleEnv None)
      (sampleChat sampleZeroScalars sampleZeroScalars_extra))))) ''max_tokens'' = None"
proof -
  have "cr_Model sampleZeroScalars = ''gpt-4o''"
    by (simp add: sampleZeroScalars_def chatStruct_def)
  then have "snd (proxyHandler sampleConfig (sampleEnv None)
      (sampleChat sampleZeroScalars sampleZeroScalars_extra))
     = [buildProxyRequest sampleConfig (sampleChat sampleZeroScalars sampleZeroScalars_extra)
          (sampleZeroScalars\<lparr>cr_Model := model sampleConfig\<rparr>)]"
    by (rule sample_sent)
  then show ?thesis
    by (simp add: buildProxyRequest_def Let_def json_field_temperature json_field_max_tokens
        buildDeepSeekRequest_Temperature buildDeepSeekRequest_MaxTokens float64_isZero_def
        sampleZeroScalars_def chatStruct_def)
qed

text \<open>
  What the serialized upstream request holds under \<^verbatim>\<open>temperature\<close> and \<^verbatim>\<open>max_tokens\<close>, for
  every forwarded chat request: nothing when the input has none or has a zero, the
  input's value otherwise.
\<close>

lemma optional_scalars_serialized:
  assumes "snd (proxyHandler activeConfig env r) = [proxyReq]"
    and "rq_Body r = Parsed bytes chatReq"
  shows "json_field (pr_Body proxyReq) ''temperature'' =
           (case cr_Temperature chatReq of
              None \<Rightarrow> None
            | Some t \<Rightarrow> if float64_isZero t then None else Some (JNumber t))"
    and "json_field (pr_Body proxyReq) ''max_tokens'' =
           (case cr_MaxTokens chatReq of
              None \<Rightarrow> None
            | Some n \<Rightarrow> if n = 0 then None else Some (JInt n))"
  using proxyHandler_sent_body [OF assms]
  by (simp_all add: json_field_temperature json_field_max_tokens
      buildDeepSeekRequest_Temperature buildDeepSeekRequest_MaxTokens float64_isZero_def
      split: option.splits)

section \<open>Properties of the response translation\<close>

lemma appendToolCalls_filter:
  "appendToolCalls acc tcs = acc @ filter (\<lambda>tc. tcf_Name (tc_Function tc) \<noteq> '''') tcs"
  by (induction tcs arbitrary: acc) simp_all

text \<open>
  The tool calls a translated choice carries: all the upstream ones, the unnamed
  included, followed once more by the named ones.
\<close>

lemma translateChoice_ToolCalls:
  "msg_ToolCalls (ch_Message (translateChoice choice)) =
     msg_ToolCalls (ch_Message choice)
       @ filter (\<lambda>tc. tcf_Name (tc_Function tc) \<noteq> '''') (msg_ToolCalls (ch_Message choice))"
  by (simp add: translateChoice_def Let_def appendToolCalls_filter)

lemma translateChoices_length: "length (translateChoices choices) = length choices"
  by (induction choices) simp_all

lemma translateChoices_nth:
  "i < length choices \<Longrightarrow> translateChoices choices ! i = translateChoice (choices ! i)"
proof (induction choices arbitrary: i)
  case Nil
  then show ?case by simp
next
  case (Cons choice choices)
  then show ?case by (cases i) simp_all
qed

lemma translateResponse_frame:
  "rp_Model (translateResponse r) = gpt4oModel"
  "rp_Object (translateResponse r) = ''chat.completion''"
  "rp_ID (translateResponse r) = rp_ID r"
  "rp_Created (translateResponse r) = rp_Created r"
  "rp_Usage (translateResponse r) = rp_Usage r"
  "length (rp_Choices (translateResponse r)) = length (rp_Choices r)"
  by (simp_all add: translateResponse_def translateChoices_length)

lemma translateChoice_frame:
  "ch_Index (translateChoice choice) = ch_Index choice"
  "ch_FinishReason (translateChoice choice) = ch_FinishReason choice"
  "msg_Role (ch_Message (translateChoice choice)) = msg_Role (ch_Message choice)"
  "msg_Content (ch_Message (translateChoice choice)) = msg_Content (ch_Message choice)"
  by (simp_all add: translateChoice_def Let_def)

lemma handleRegularResponse_parsed:
  "up_Body resp = Parsed bytes deepseekResp \<Longrightarrow>
   rs_StatusCode (handleRegularResponse w resp) = up_StatusCode resp \<and>
   rs_Body (handleRegularResponse w resp) =
     Marshalled (marshal_ChatResponse (translateResponse deepseekResp))"
  by (simp add: handleRegularResponse_def)

text \<open>
  C1 at an upstream reply with one choice holding one tool call named \<^verbatim>\<open>f\<close>: the
  client-facing reply has one choice, the model \<^verbatim>\<open>gpt-4o\<close>, and the tool call twice.
\<close>

theorem named_tool_call_twice:
  "toolCallsOf (sampleReply [sampleToolCall ''c1'' ''f'']) = [[sampleToolCall ''c1'' ''f'']] \<and>
   rs_Body (handleRegularResponse w
      \<lparr>up_StatusCode = 200, up_Header = h,
       up_Body = Parsed bytes (sampleReply [sampleToolCall ''c1'' ''f''])\<rparr>)
     = Marshalled (marshal_ChatResponse
         (translateResponse (sampleReply [sampleToolCall ''c1'' ''f'']))) \<and>
   rp_Model (translateResponse (sampleReply [sampleToolCall ''c1'' ''f''])) = ''gpt-4o'' \<and>
   toolCallsOf (translateResponse (sampleReply [sampleToolCall ''c1'' ''f'']))
     = [[sampleToolCall ''c1'' ''f'', sampleToolCall ''c1'' ''f'']]"
proof (intro conjI)
  show "toolCallsOf (sampleReply [sampleToolCall ''c1'' ''f'']) = [[sampleToolCall ''c1'' ''f'']]"
    by (simp add: toolCallsOf_def sampleReply_def)
  show "rs_Body (handleRegularResponse w
      \<lparr>up_StatusCode = 200, up_Header = h,
       up_Body = Parsed bytes (sampleReply [sampleToolCall ''c1'' ''f''])\<rparr>)
     = Marshalled (marshal_ChatResponse
         (translateResponse (sampleReply [sampleToolCall ''c1'' ''f''])))"
    by (simp add: handleRegularResponse_def)
  show "rp_Model (translateResponse (sampleReply [sampleToolCall ''c1'' ''f''])) = ''gpt-4o''"
    by (simp add: translateResponse_def gpt4oModel_def)
  show "toolCallsOf (translateResponse (sampleReply [sampleToolCall ''c1'' ''f'']))
     = [[sampleToolCall ''c1'' ''f'', sampleToolCall ''c1'' ''f'']]"
    by (simp add: toolCallsOf_def translateResponse_def translateChoice_ToolCalls
        sampleReply_def sampleToolCall_def)
qed

text \<open>
  C2 at an upstream reply with one choice holding one tool call with an empty function
  name: the tool call is still there in the client-facing reply, in the message and in
  its encoding.
\<close>

theorem unnamed_tool_call_kept:
  "tcf_Name (tc_Function (sampleToolCall ''c1'' '''')) = '''' \<and>
   toolCallsOf (translateResponse (sampleReply [sampleToolCall ''c1'' '''']))
     = [[sampleToolCall ''c1'' '''']] \<and>
   json_field (marshal_Message (ch_Message (hd (rp_Choices
      (translateResponse (sampleReply [sampleToolCall ''c1'' '''']))))))
      ''tool_calls''
     = Some (JArray [marshal_ToolCall (sampleToolCall ''c1'' '''')])"
proof (intro conjI)
  show "tcf_Name (tc_Function (sampleToolCall ''c1'' '''')) = ''''"
    by (simp add: sampleToolCall_def)
  show "toolCallsOf (translateResponse (sampleReply [sampleToolCall ''c1'' '''']))
     = [[sampleToolCall ''c1'' '''']]"
    by (simp add: toolCallsOf_def translateResponse_def translateChoice_ToolCalls
        sampleReply_def sampleToolCall_def)
  show "json_field (marshal_Message (ch_Message (hd (rp_Choices
      (translateResponse (sampleReply [sampleToolCall ''c1'' '''']))))))
      ''tool_calls''
     = Some (JArray [marshal_ToolCall (sampleToolCall ''c1'' '''')])"
    by (simp add: translateResponse_def translateChoice_ToolCalls sampleReply_def
        sampleToolCall_def marshal_Message_def omitempty_def)
qed

section \<open>Properties of the streaming relay\<close>

text \<open>
  Once the upstream body is consumed and has ended cleanly, every further iteration
  reads again, gets \<^verbatim>\<open>io.EOF\<close> and continues: with the context not cancelled the loop
  is still running after any number of iterations.
\<close>

lemma relayLoop_at_EOF:
  "relayLoop (\<lambda>i. False) writeFails n
     \<lparr>rl_upstream = \<lparr>us_pending = [], us_ending = EOF\<rparr>, rl_written = ws,
      rl_iter = i, rl_reads = k, rl_cancelled = c\<rparr>
   = Running
     \<lparr>rl_upstream = \<lparr>us_pending = [], us_ending = EOF\<rparr>, rl_written = ws,
      rl_iter = i + n, rl_reads = k + n, rl_cancelled = c\<rparr>"
  by (induction n arbitrary: i k) (simp_all add: ReadBytes_def)

lemma ReadBytes_ending:
  "ReadBytes up = (line, err, up') \<Longrightarrow> us_ending up' = us_ending up"
  by (auto simp: ReadBytes_def split: option.splits)

lemma ReadBytes_error:
  "ReadBytes up = (line, Some e, up') \<Longrightarrow> e = us_ending up"
  by (auto simp: ReadBytes_def split: option.splits)

text \<open>
  Whatever the upstream sends before its clean end, the loop does not close by itself:
  while the context is not cancelled and the writes succeed, it is running after any
  number of iterations.
\<close>

lemma relayLoop_never_closes:
  assumes "us_ending (rl_upstream st) = EOF"
  shows "\<exists>st'. relayLoop (\<lambda>i. False) (\<lambda>k. False) n st = Running st'"
  using assms
proof (induction n arbitrary: st)
  case 0
  then show ?case by simp
next
  case (Suc n)
  obtain line err up' where rd: "ReadBytes (rl_upstream st) = (line, err, up')"
    by (cases "ReadBytes (rl_upstream st)") auto
  have ending: "us_ending up' = EOF"
    using ReadBytes_ending [OF rd] Suc.prems by simp
  show ?case
  proof (cases err)
    case None
    then show ?thesis
      using rd ending Suc.IH by (simp add: Let_def)
  next
    case (Some e)
    then have "e = EOF"
      using ReadBytes_error rd Suc.prems by fastforce
    with Some show ?thesis
      using rd ending Suc.IH by (simp add: Let_def)
  qed
qed

text \<open>
  C3 at the upstream body \<^verbatim>\<open>data: 1\<close>, newline, clean end of stream, with a client that
  stays connected: after \<open>n + 1\<close> iterations, for every \<open>n\<close>, the line has been forwarded,
  the loop has not closed, and it has called \<^verbatim>\<open>ReadBytes\<close> \<open>n + 1\<close> times, \<open>n\<close> of them
  after the end of the stream.
\<close>

theorem relay_runs_on_after_EOF:
  "relayLoop (\<lambda>i. False) (\<lambda>k. False) (Suc n)
     (relayStart \<lparr>us_pending = ''data: 1'' @ [CHR 0x0A], us_ending = EOF\<rparr>)
   = Running
     \<lparr>rl_upstream = \<lparr>us_pending = [], us_ending = EOF\<rparr>,
      rl_written = [''data: 1'' @ [CHR 0x0A]],
      rl_iter = Suc n, rl_reads = Suc n, rl_cancelled = False\<rparr>"
proof -
  have first: "ReadBytes \<lparr>us_pending = ''data: 1'' @ [CHR 0x0A], us_ending = EOF\<rparr>
      = (''data: 1'' @ [CHR 0x0A], None, \<lparr>us_pending = [], us_ending = EOF\<rparr>)"
    by (simp add: ReadBytes_def)
  have payload: "\<not> isBlank (''data: 1'' @ [CHR 0x0A])"
    by (simp add: asciiSpace_def twoByteSpaces_def threeByteSpaces_def)
  have "relayLoop (\<lambda>i. False) (\<lambda>k. False) (Suc n)
      (relayStart \<lparr>us_pending = ''data: 1'' @ [CHR 0x0A], us_ending = EOF\<rparr>)
    = relayLoop (\<lambda>i. False) (\<lambda>k. False) n
        \<lparr>rl_upstream = \<lparr>us_pending = [], us_ending = EOF\<rparr>,
         rl_written = [''data: 1'' @ [CHR 0x0A]],
         rl_iter = 1, rl_reads = 1, rl_cancelled = False\<rparr>"
    using first payload by (simp add: relayStart_def)
  also have "\<dots> = Running
      \<lparr>rl_upstream = \<lparr>us_pending = [], us_ending = EOF\<rparr>,
       rl_written = [''data: 1'' @ [CHR 0x0A]],
       rl_iter = 1 + n, rl_reads = 1 + n, rl_cancelled = False\<rparr>"
    by (rule relayLoop_at_EOF)
  finally show ?thesis by simp
qed

text \<open>
  A last line that upstream did not end with a newline comes back from \<^verbatim>\<open>ReadBytes\<close>
  together with \<^verbatim>\<open>io.EOF\<close> and is not forwarded.
\<close>

lemma relay_drops_unterminated_line:
  "relayLoop (\<lambda>i. False) (\<lambda>k. False) (Suc n)
     (relayStart \<lparr>us_pending = ''data: 1'', us_ending = EOF\<rparr>)
   = Running
     \<lparr>rl_upstream = \<lparr>us_pending = [], us_ending = EOF\<rparr>,
      rl_written = [],
      rl_iter = Suc n, rl_reads = Suc n, rl_cancelled = False\<rparr>"
  by (simp add: relayStart_def ReadBytes_def relayLoop_at_EOF)

text \<open>
  Blank lines are not forwarded: a line of ASCII white space, and a line holding only
  a no-break space (U+00A0) before its newline.
\<close>

lemma isBlank_samples:
  "isBlank [CHR 0x0D, CHR 0x0A]"
  "isBlank [CHR 0xC2, CHR 0xA0, CHR 0x0A]"
  "isBlank [CHR 0x20, CHR 0xE3, CHR 0x80, CHR 0x80, CHR 0x0A]"
  "\<not> isBlank [CHR 0xC2, CHR 0x0A]"
  by (simp_all add: asciiSpace_def twoByteSpaces_def threeByteSpaces_def)

text \<open>The loop does close on a read failure and on a cancelled context.\<close>

lemma relay_closes_on_read_failure:
  "relayLoop (\<lambda>i. False) (\<lambda>k. False) (Suc (Suc n))
     (relayStart \<lparr>us_pending = ''data: 1'' @ [CHR 0x0A], us_ending = ReadFailure\<rparr>)
   = Closed ReadError
     \<lparr>rl_upstream = \<lparr>us_pending = [], us_ending = ReadFailure\<rparr>,
      rl_written = [''data: 1'' @ [CHR 0x0A]],
      rl_iter = 2, rl_reads = 2, rl_cancelled = True\<rparr>"
  by (simp add: relayStart_def ReadBytes_def asciiSpace_def twoByteSpaces_def
      threeByteSpaces_def)

lemma relay_closes_on_cancel:
  "ctxDone (rl_iter st) \<Longrightarrow> relayLoop ctxDone writeFails (Suc n) st = Closed ContextDone st"
  by simp

end
